theory Spec2Isabelle
  imports Complex_Main
begin

section \<open>JavaScript strings\<close>

text \<open>
  A string is the list of its characters. The characters are the 8-bit \<open>char\<close> type, read
  as the code points 0 to 255; \<open>String.prototype.trim\<close> strips the WhiteSpace and
  LineTerminator code points, of which TAB, LF, VT, FF, CR, SPACE and NBSP lie in that range.
\<close>

definition isWhiteSpace :: "char \<Rightarrow> bool" where
  "isWhiteSpace c =
     (c = CHR 0x09 \<or> c = CHR 0x0A \<or> c = CHR 0x0B \<or> c = CHR 0x0C \<or> c = CHR 0x0D
      \<or> c = CHR 0x20 \<or> c = CHR 0xA0)"

text \<open>\<open>s.trim()\<close>: leading and trailing white space removed.\<close>

definition trim :: "string \<Rightarrow> string" where
  "trim s = rev (dropWhile isWhiteSpace (rev (dropWhile isWhiteSpace s)))"

text \<open>
  \<open>s.split(sep)\<close> for a one-character separator: the pieces between the separators, in
  order; the empty string gives one empty piece.
\<close>

fun js_split :: "char \<Rightarrow> string \<Rightarrow> string list" where
  "js_split sep [] = [[]]"
| "js_split sep (c # cs) =
     (if c = sep then [] # js_split sep cs
      else (case js_split sep cs of
              [] \<Rightarrow> [[c]]
            | seg # segs \<Rightarrow> (c # seg) # segs))"

text \<open>\<open>xs.join(sep)\<close>.\<close>

fun js_join :: "string \<Rightarrow> string list \<Rightarrow> string" where
  "js_join sep [] = []"
| "js_join sep [x] = x"
| "js_join sep (x # y # ys) = x @ sep @ js_join sep (y # ys)"

text \<open>A string of white space only (the empty string included).\<close>

definition whitespace_only :: "string \<Rightarrow> bool" where
  "whitespace_only s = list_all isWhiteSpace s"

section \<open>The Trends Provider: \<open>GET /api/trends\<close>\<close>

text \<open>
  A value of \<open>req.query\<close>: the parameter is absent (\<open>undefined\<close>), a string, or, when
  the parameter is repeated or bracketed, an array or object, which has no \<open>split\<close>.
\<close>

datatype query_value = Absent | Str string | NonString

text \<open>The parameters the handler hands to SerpApi's \<open>getJson\<close>.\<close>

record serp_params =
  engine :: string
  q :: string
  data_type :: string
  api_key :: "string option"

text \<open>
  The upstream's reply. The handler reads its \<open>error\<close> field only; every other field is
  carried in the record's extension.
\<close>

record serp_json =
  json_error :: "string option"

text \<open>What \<open>res.json\<close> sends: \<open>{ error: message }\<close> or the upstream's reply.\<close>

datatype 'j body = ErrorJson string | Json 'j

record 'j response =
  status :: nat
  body :: "'j body"

text \<open>\<open>const { keywords, date = 'today 12-m' } = req.query\<close>: the default of \<open>date\<close>.\<close>

definition date_or_default :: "query_value \<Rightarrow> query_value" where
  "date_or_default d = (case d of Absent \<Rightarrow> Str ''today 12-m'' | _ \<Rightarrow> d)"

text \<open>
  \<open>keywords.split(',').map(k => k.trim()).filter(k => k.length > 0).join(',')\<close>, in two
  steps: the list of the keywords kept, and its join.
\<close>

definition keyword_list :: "string \<Rightarrow> string list" where
  "keyword_list keywords =
     filter (\<lambda>k. length k > 0) (map trim (js_split CHR '','' keywords))"

definition clean_keywords :: "string \<Rightarrow> string" where
  "clean_keywords keywords = js_join '','' (keyword_list keywords)"

text \<open>
  The handler of \<open>app.get('/api/trends')\<close>. \<open>getJson\<close> is SerpApi's client and
  \<open>SERPAPI_KEY\<close> the environment's key, both taken as parameters. A string is falsy when it
  is empty; a \<open>TypeError\<close> of \<open>keywords.split\<close> is caught by the handler's \<open>catch\<close>.
\<close>

definition trends_handler ::
  "(serp_params \<Rightarrow> 'a serp_json_scheme) \<Rightarrow> string option \<Rightarrow> query_value \<Rightarrow> query_value
     \<Rightarrow> ('a serp_json_scheme) response" where
  "trends_handler getJson SERPAPI_KEY keywords date_param =
     (let date = date_or_default date_param in
      case keywords of
        Absent \<Rightarrow>
          \<lparr>status = 400, body = ErrorJson
             ''Keywords parameter is required. Use comma-separated values like: ?keywords=coffee,milk,bread''\<rparr>
      | NonString \<Rightarrow>
          \<lparr>status = 500, body = ErrorJson ''keywords.split is not a function''\<rparr>
      | Str kw \<Rightarrow>
          if kw = [] then
            \<lparr>status = 400, body = ErrorJson
               ''Keywords parameter is required. Use comma-separated values like: ?keywords=coffee,milk,bread''\<rparr>
          else
            let q = clean_keywords kw in
            if q = [] then
              \<lparr>status = 400, body = ErrorJson ''At least one valid keyword is required''\<rparr>
            else
              let json = getJson \<lparr>engine = ''google_trends'', q = q,
                                   data_type = ''TIMESERIES'', api_key = SERPAPI_KEY\<rparr> in
              (case json_error json of
                 None \<Rightarrow> \<lparr>status = 200, body = Json json\<rparr>
               | Some e \<Rightarrow>
                   if e = [] then \<lparr>status = 200, body = Json json\<rparr>
                   else \<lparr>status = 500, body = ErrorJson e\<rparr>))"

text \<open>
  What becomes of the promise that \<open>getJson\<close> returns: the client calls the callback with
  the upstream's reply, or the promise rejects with an error and the callback is never
  called.
\<close>

datatype 'j settled = Calls_back 'j | Rejects string

text \<open>
  The handler once more, with \<open>getJson\<close> as a call that may reject. The handler neither
  awaits the promise nor attaches a \<open>catch\<close> to it, so a rejection happens outside its
  \<open>try\<close> block and nothing answers the request: \<open>None\<close> is the request left without a
  response.
\<close>

definition trends_route ::
  "(serp_params \<Rightarrow> ('a serp_json_scheme) settled) \<Rightarrow> string option \<Rightarrow> query_value
     \<Rightarrow> query_value \<Rightarrow> ('a serp_json_scheme) response option" where
  "trends_route getJson SERPAPI_KEY keywords date_param =
     (let date = date_or_default date_param in
      case keywords of
        Absent \<Rightarrow>
          Some \<lparr>status = 400, body = ErrorJson
             ''Keywords parameter is required. Use comma-separated values like: ?keywords=coffee,milk,bread''\<rparr>
      | NonString \<Rightarrow>
          Some \<lparr>status = 500, body = ErrorJson ''keywords.split is not a function''\<rparr>
      | Str kw \<Rightarrow>
          if kw = [] then
            Some \<lparr>status = 400, body = ErrorJson
               ''Keywords parameter is required. Use comma-separated values like: ?keywords=coffee,milk,bread''\<rparr>
          else
            let q = clean_keywords kw in
            if q = [] then
              Some \<lparr>status = 400, body = ErrorJson ''At least one valid keyword is required''\<rparr>
            else
              (case getJson \<lparr>engine = ''google_trends'', q = q,
                              data_type = ''TIMESERIES'', api_key = SERPAPI_KEY\<rparr> of
                 Rejects err \<Rightarrow> None
               | Calls_back json \<Rightarrow>
                   (case json_error json of
                      None \<Rightarrow> Some \<lparr>status = 200, body = Json json\<rparr>
                    | Some e \<Rightarrow>
                        if e = [] then Some \<lparr>status = 200, body = Json json\<rparr>
                        else Some \<lparr>status = 500, body = ErrorJson e\<rparr>)))"

text \<open>
  The shape of a trends reply, as the server's README documents it and as the results page
  reads it: weekly points, each with one value per keyword, and one average per keyword.
\<close>

record trend_value =
  tv_query :: string
  tv_value :: string
  extracted_value :: int

record timeline_point =
  date :: string
  timestamp :: string
  "values" :: "trend_value list"

record average =
  avg_query :: string
  avg_value :: int

record interest_over_time =
  timeline_data :: "timeline_point list"
  averages :: "average list"

record search_parameters =
  sp_engine :: string
  sp_q :: string
  sp_date :: string
  sp_data_type :: string

record trends_json = serp_json +
  search_parameters :: "search_parameters option"
  interest_over_time :: "interest_over_time option"

text \<open>
  A series for the keywords \<open>kws\<close> with \<open>n\<close> points: every point carries one value per
  keyword, in the keywords' order and within 0 to 100, and there is one average per keyword,
  within 0 to 100.
\<close>

definition point_ok :: "string list \<Rightarrow> timeline_point \<Rightarrow> bool" where
  "point_ok kws p =
     (map tv_query (values p) = kws
      \<and> list_all (\<lambda>v. 0 \<le> extracted_value v \<and> extracted_value v \<le> 100) (values p))"

definition series_ok :: "nat \<Rightarrow> string list \<Rightarrow> interest_over_time \<Rightarrow> bool" where
  "series_ok n kws s =
     (length (timeline_data s) = n
      \<and> list_all (point_ok kws) (timeline_data s)
      \<and> map avg_query (averages s) = kws
      \<and> list_all (\<lambda>a. 0 \<le> avg_value a \<and> avg_value a \<le> 100) (averages s))"

text \<open>The response is a trend series: status 200 and a reply whose series is as above.\<close>

definition returns_series :: "nat \<Rightarrow> string list \<Rightarrow> trends_json response \<Rightarrow> bool" where
  "returns_series n kws r =
     (status r = 200
      \<and> (case body r of
            ErrorJson e \<Rightarrow> False
          | Json j \<Rightarrow> (case interest_over_time j of
                        None \<Rightarrow> False
                      | Some s \<Rightarrow> series_ok n kws s)))"

section \<open>The Presentation Client\<close>

text \<open>
  \<open>sessionStorage\<close>: strings under string keys. Access is taken to succeed and the quota
  not to be reached.
\<close>

type_synonym storage = "string \<rightharpoonup> string"

definition getItem :: "storage \<Rightarrow> string \<Rightarrow> string option" where
  "getItem st k = st k"

definition setItem :: "storage \<Rightarrow> string \<Rightarrow> string \<Rightarrow> storage" where
  "setItem st k v = st(k \<mapsto> v)"

definition removeItem :: "storage \<Rightarrow> string \<Rightarrow> storage" where
  "removeItem st k = st(k := None)"

text \<open>The interface \<open>ValidationResult\<close> of both pages.\<close>

record trends_data =
  td_interest_over_time :: interest_over_time

record ValidationResult =
  success :: bool
  query :: string
  recommendations :: "string list"
  trends_data :: trends_data
  opportunity_score :: int
  risk_score :: int
  recommendation :: string
  processing_time :: real

subsection \<open>The form: \<open>app/page.tsx\<close>\<close>

record home =
  idea :: string
  isLoading :: bool
  home_error :: "string option"

text \<open>The request \<open>handleSubmit\<close> sends; its body is \<open>{ query: idea }\<close>.\<close>

record request =
  url :: string
  http_method :: string
  body_query :: string

text \<open>
  What \<open>fetch\<close> gives: a rejection, or a response with its \<open>ok\<close> flag, its status and the
  value of \<open>response.json()\<close> (\<open>None\<close> when the body is not JSON and the call rejects).
\<close>

datatype 'v fetched = Rejected | Response bool nat "'v option"

record submitted =
  page :: home
  store :: storage
  sent :: "request list"
  pushed :: "string option"

text \<open>
  \<open>handleSubmit\<close>, from the page's state and the storage to the state and storage it leaves,
  the requests it has sent and the route it has pushed. \<open>fetch\<close> and \<open>JSON.stringify\<close> are
  the platform's and are parameters. The two-second delay is not modelled.
\<close>

definition handleSubmit ::
  "(request \<Rightarrow> 'v fetched) \<Rightarrow> ('v \<Rightarrow> string) \<Rightarrow> storage \<Rightarrow> home \<Rightarrow> submitted" where
  "handleSubmit fetch JSON_stringify st h =
     (if trim (idea h) = [] then \<lparr>page = h, store = st, sent = [], pushed = None\<rparr>
      else
        let h1 = h\<lparr>isLoading := True, home_error := None\<rparr>;
            req = \<lparr>url = ''http://localhost:8001/validate'', http_method = ''POST'',
                   body_query = idea h\<rparr>;
            failed = \<lparr>page = h1\<lparr>home_error := Some ''Failed to validate idea. Please try again.'',
                                  isLoading := False\<rparr>,
                      store = st, sent = [req], pushed = None\<rparr>
        in case fetch req of
             Rejected \<Rightarrow> failed
           | Response ok code json \<Rightarrow>
               if \<not> ok then failed
               else (case json of
                       None \<Rightarrow> failed
                     | Some data \<Rightarrow>
                         \<lparr>page = h1,
                          store = setItem st ''validationResult'' (JSON_stringify data),
                          sent = [req], pushed = Some ''/result''\<rparr>))"

text \<open>The submit button's \<open>disabled\<close> attribute.\<close>

definition submit_disabled :: "home \<Rightarrow> bool" where
  "submit_disabled h = (trim (idea h) = [] \<or> isLoading h)"

subsection \<open>The results view: \<open>app/result/page.tsx\<close>\<close>

text \<open>
  The component's three states and its \<open>hasProcessed\<close> ref. \<open>None\<close> is \<open>null\<close>.
\<close>

record 'v result_page =
  result :: "'v option"
  loading :: bool
  error :: "string option"
  hasProcessed :: bool

definition initial_page :: "'v result_page" where
  "initial_page = \<lparr>result = None, loading = True, error = None, hasProcessed = False\<rparr>"

text \<open>
  The first effect (dependencies \<open>[]\<close>). \<open>JSON.parse\<close> is the platform's and is a parameter:
  \<open>None\<close> where it throws. An empty string read from the storage is falsy.
\<close>

definition useEffect_load ::
  "(string \<Rightarrow> 'v option) \<Rightarrow> storage \<times> 'v result_page \<Rightarrow> storage \<times> 'v result_page" where
  "useEffect_load JSON_parse sp =
     (case sp of (st, p) \<Rightarrow>
        if hasProcessed p then (st, p)
        else
          let no_data = p\<lparr>error := Some ''No result data found. Please start a new analysis.'',
                          hasProcessed := True, loading := False\<rparr>
          in case getItem st ''validationResult'' of
               None \<Rightarrow> (st, no_data)
             | Some resultData \<Rightarrow>
                 if resultData = [] then (st, no_data)
                 else (case JSON_parse resultData of
                         None \<Rightarrow>
                           (st, p\<lparr>error := Some ''Invalid result data format. Please start a new analysis.'',
                                  hasProcessed := True, loading := False\<rparr>)
                       | Some parsedResult \<Rightarrow>
                           (st, p\<lparr>result := Some parsedResult,
                                  hasProcessed := True, loading := False\<rparr>)))"

text \<open>Truthiness of a state that is \<open>null\<close> or a value, and of one that is \<open>null\<close> or a string.\<close>

definition truthy_result :: "('v \<Rightarrow> bool) \<Rightarrow> 'v option \<Rightarrow> bool" where
  "truthy_result truthy r = (case r of None \<Rightarrow> False | Some v \<Rightarrow> truthy v)"

definition truthy_string :: "string option \<Rightarrow> bool" where
  "truthy_string e = (case e of None \<Rightarrow> False | Some s \<Rightarrow> s \<noteq> [])"

text \<open>
  The second effect (dependencies \<open>[result]\<close>). \<open>rendered\<close> is the value of \<open>result\<close> in the
  render whose effect this is; \<open>truthy\<close> tells which parsed values are truthy.
\<close>

definition useEffect_clear ::
  "('v \<Rightarrow> bool) \<Rightarrow> 'v option \<Rightarrow> storage \<times> 'v result_page \<Rightarrow> storage \<times> 'v result_page" where
  "useEffect_clear truthy rendered sp =
     (case sp of (st, p) \<Rightarrow>
        if truthy_result truthy rendered \<and> \<not> hasProcessed p
        then (removeItem st ''validationResult'', p\<lparr>hasProcessed := True\<rparr>)
        else (st, p))"

text \<open>
  The effects of one commit, in the order of their declaration: what the component sets
  up for the render that showed \<open>rendered\<close>.
\<close>

definition run_effects ::
  "(string \<Rightarrow> 'v option) \<Rightarrow> ('v \<Rightarrow> bool) \<Rightarrow> 'v option \<Rightarrow> storage \<times> 'v result_page
     \<Rightarrow> storage \<times> 'v result_page" where
  "run_effects JSON_parse truthy rendered sp =
     useEffect_clear truthy rendered (useEffect_load JSON_parse sp)"

text \<open>
  A load of the results view: the first render shows the initial state, its commit runs both
  effects, and when \<open>result\<close> has changed the next commit runs the second effect again.
\<close>

definition ResultPage ::
  "(string \<Rightarrow> 'v option) \<Rightarrow> ('v \<Rightarrow> bool) \<Rightarrow> storage \<Rightarrow> storage \<times> 'v result_page" where
  "ResultPage JSON_parse truthy st =
     (let mounted = run_effects JSON_parse truthy (result initial_page) (st, initial_page) in
      if result (snd mounted) = result initial_page then mounted
      else useEffect_clear truthy (result (snd mounted)) mounted)"

text \<open>
  What the component returns for a state. \<open>ResultView v\<close> stands for the markup built from
  the fields of \<open>v\<close>, a value of the interface's shape.
\<close>

datatype 'v view = LoadingView | ErrorView string | ResultView 'v

definition render :: "('v \<Rightarrow> bool) \<Rightarrow> 'v result_page \<Rightarrow> 'v view" where
  "render truthy p =
     (if loading p then LoadingView
      else if truthy_string (error p) \<or> \<not> truthy_result truthy (result p) then
        ErrorView (case error p of
                     None \<Rightarrow> ''Unable to load analysis results''
                   | Some e \<Rightarrow> if e = [] then ''Unable to load analysis results'' else e)
      else (case result p of
              None \<Rightarrow> ErrorView ''Unable to load analysis results''
            | Some v \<Rightarrow> ResultView v))"

definition getRecommendationColor :: "string \<Rightarrow> string" where
  "getRecommendationColor r =
     (if r = ''BUILD'' then
        ''text-green-600 bg-green-100 dark:bg-green-900/30 border-green-200 dark:border-green-700''
      else if r = ''VALIDATE'' then
        ''text-yellow-600 bg-yellow-100 dark:bg-yellow-900/30 border-yellow-200 dark:border-yellow-700''
      else if r = ''PIVOT'' then
        ''text-red-600 bg-red-100 dark:bg-red-900/30 border-red-200 dark:border-red-700''
      else
        ''text-slate-600 bg-slate-100 dark:bg-slate-900/30 border-slate-200 dark:border-slate-700'')"

text \<open>The recommendation badge of the results view: its colour classes and its text.\<close>

record badge =
  className :: string
  label :: string

definition recommendation_badge :: "ValidationResult \<Rightarrow> badge" where
  "recommendation_badge r =
     \<lparr>className = getRecommendationColor (recommendation r), label = recommendation r\<rparr>"

section \<open>The Orchestrator's batch validation\<close>

text \<open>
  The interfaces \<open>ValidationResponse\<close> and \<open>BatchValidationResponse\<close> of the NestJS service;
  \<open>'t\<close> is the type of the optional \<open>trends_data\<close>.
\<close>

record 't ValidationResponse =
  vr_success :: bool
  vr_query :: string
  vr_recommendations :: "string list"
  vr_trends_data :: "'t option"
  vr_error :: "string option"
  analysis_type :: "string option"
  vr_processing_time :: "real option"

record 't BatchValidationResponse =
  batch_success :: bool
  results :: "'t ValidationResponse list"
  total_queries :: nat
  successful_queries :: nat
  failed_queries :: nat

text \<open>
  Modelled from the spec: the result of an item whose validation fails fatally, which the
  Orchestrator (not among the sources) builds: \<open>success\<close> false, the \<open>error\<close> field
  populated and an empty \<open>recommendations\<close> sequence.
\<close>

definition failed_result :: "string \<Rightarrow> string \<Rightarrow> 't ValidationResponse" where
  "failed_result qu e =
     \<lparr>vr_success = False, vr_query = qu, vr_recommendations = [], vr_trends_data = None,
      vr_error = Some e, analysis_type = None, vr_processing_time = None\<rparr>"

text \<open>
  Modelled from the spec: the validation of one item of a batch. \<open>validate\<close> is the
  single validation, which may fail (\<open>Inl\<close>); a failure becomes that item's failed result.
\<close>

definition validate_item ::
  "(string \<Rightarrow> string + 't ValidationResponse) \<Rightarrow> string \<Rightarrow> 't ValidationResponse" where
  "validate_item validate qu = (case validate qu of Inl e \<Rightarrow> failed_result qu e | Inr r \<Rightarrow> r)"

text \<open>
  Modelled from the spec: the Orchestrator's \<open>POST /validate/batch\<close>, whose code is not
  among the sources (the declaration of its response and the service that calls it are): one
  result per input, in order, and the counts of the successes and the failures.
\<close>

definition validate_batch ::
  "(string \<Rightarrow> string + 't ValidationResponse) \<Rightarrow> string list \<Rightarrow> 't BatchValidationResponse" where
  "validate_batch validate queries =
     (let rs = map (validate_item validate) queries in
      \<lparr>batch_success = True, results = rs, total_queries = length queries,
       successful_queries = length (filter vr_success rs),
       failed_queries = length (filter (\<lambda>r. \<not> vr_success r) rs)\<rparr>)"

section \<open>Data of the worked examples\<close>

text \<open>The reply of the README's response format: one point, two keywords.\<close>

definition sample_reply :: trends_json where
  "sample_reply =
     \<lparr>json_error = None,
      search_parameters = Some \<lparr>sp_engine = ''google_trends'',
                                sp_q = ''coffee,milk,bread,pasta,steak'',
                                sp_date = ''today 12-m'', sp_data_type = ''TIMESERIES''\<rparr>,
      interest_over_time = Some
        \<lparr>timeline_data =
           [\<lparr>date = ''May 30 - Jun 5, 2021'', timestamp = ''1622304000'',
             values = [\<lparr>tv_query = ''coffee'', tv_value = ''80'', extracted_value = 80\<rparr>,
                       \<lparr>tv_query = ''milk'', tv_value = ''58'', extracted_value = 58\<rparr>]\<rparr>],
         averages = [\<lparr>avg_query = ''coffee'', avg_value = 84\<rparr>,
                     \<lparr>avg_query = ''milk'', avg_value = 55\<rparr>]\<rparr>\<rparr>"

text \<open>An upstream that answers every request with that reply.\<close>

definition getJson_sample :: "serp_params \<Rightarrow> trends_json" where
  "getJson_sample params = sample_reply"

text \<open>An upstream that reports a failure.\<close>

definition getJson_failing :: "serp_params \<Rightarrow> trends_json" where
  "getJson_failing params =
     \<lparr>json_error = Some ''Invalid API key'', search_parameters = None,
      interest_over_time = None\<rparr>"

text \<open>A client whose call rejects: the upstream cannot be reached.\<close>

definition getJson_unreachable :: "serp_params \<Rightarrow> trends_json settled" where
  "getJson_unreachable params = Rejects ''getaddrinfo ENOTFOUND serpapi.com''"

text \<open>An upstream that answers with 52 equal weekly points for the keywords it is asked.\<close>

definition getJson_weekly :: "serp_params \<Rightarrow> trends_json" where
  "getJson_weekly params =
     (let kws = js_split CHR '','' (q params) in
      \<lparr>json_error = None,
       search_parameters = Some \<lparr>sp_engine = engine params, sp_q = q params,
                                 sp_date = ''today 12-m'', sp_data_type = data_type params\<rparr>,
       interest_over_time = Some
         \<lparr>timeline_data =
            replicate 52
              \<lparr>date = ''week'', timestamp = ''0'',
               values = map (\<lambda>k. \<lparr>tv_query = k, tv_value = ''50'', extracted_value = 50\<rparr>) kws\<rparr>,
          averages = map (\<lambda>k. \<lparr>avg_query = k, avg_value = 50\<rparr>) kws\<rparr>\<rparr>)"

text \<open>A validation result and the text under which the examples store it.\<close>

definition sample_result :: ValidationResult where
  "sample_result =
     \<lparr>success = True, query = ''A coffee subscription for offices'',
      recommendations = [''Interview ten office managers''],
      trends_data = \<lparr>td_interest_over_time =
                       \<lparr>timeline_data = [], averages = [\<lparr>avg_query = ''coffee'', avg_value = 84\<rparr>]\<rparr>\<rparr>,
      opportunity_score = 7, risk_score = 4, recommendation = ''VALIDATE'',
      processing_time = 3\<rparr>"

definition sample_text :: string where
  \<open>sample_text =
     ''{"success":true,"query":"A coffee subscription for offices","recommendations":["Interview ten office managers"],"trends_data":{"interest_over_time":{"timeline_data":[],"averages":[{"query":"coffee","value":84}]}},"opportunity_score":7,"risk_score":4,"recommendation":"VALIDATE","processing_time":3}''\<close>

text \<open>The same result with a recommendation outside the three verdicts, and its text.\<close>

definition maybe_result :: ValidationResult where
  "maybe_result = sample_result\<lparr>recommendation := ''MAYBE''\<rparr>"

definition maybe_text :: string where
  \<open>maybe_text =
     ''{"success":true,"query":"A coffee subscription for offices","recommendations":["Interview ten office managers"],"trends_data":{"interest_over_time":{"timeline_data":[],"averages":[{"query":"coffee","value":84}]}},"opportunity_score":7,"risk_score":4,"recommendation":"MAYBE","processing_time":3}''\<close>

text \<open>
  Stand-ins for \<open>JSON.parse\<close> and \<open>JSON.stringify\<close> in the examples: they know the two
  documents above, and the parse rejects every other text.
\<close>

definition parse_sample :: "string \<Rightarrow> ValidationResult option" where
  "parse_sample s =
     (if s = sample_text then Some sample_result
      else if s = maybe_text then Some maybe_result
      else None)"

definition stringify_sample :: "ValidationResult \<Rightarrow> string" where
  "stringify_sample v = (if v = maybe_result then maybe_text else sample_text)"

text \<open>Every parsed value of the examples is an object, hence truthy.\<close>

definition truthy_object :: "ValidationResult \<Rightarrow> bool" where
  "truthy_object v = True"

text \<open>An Orchestrator that answers every request with the sample result.\<close>

definition fetch_sample :: "request \<Rightarrow> ValidationResult fetched" where
  "fetch_sample req = Response True 200 (Some sample_result)"

text \<open>A single validation that fails on the empty idea and succeeds on every other.\<close>

definition validate_sample :: "string \<Rightarrow> string + unit ValidationResponse" where
  "validate_sample qu =
     (if qu = [] then Inl ''empty idea''
      else Inr \<lparr>vr_success = True, vr_query = qu, vr_recommendations = [''Talk to users''],
                vr_trends_data = None, vr_error = None, analysis_type = None,
                vr_processing_time = None\<rparr>)"

section \<open>Properties of the string operations\<close>

lemma trim_Nil_iff: "trim s = [] \<longleftrightarrow> whitespace_only s"
proof
  assume t: "trim s = []"
  then have all_ws: "\<forall>c\<in>set (dropWhile isWhiteSpace s). isWhiteSpace c"
    by (simp add: trim_def)
  have "dropWhile isWhiteSpace s = []"
  proof (rule ccontr)
    assume ne: "dropWhile isWhiteSpace s \<noteq> []"
    then have "\<not> isWhiteSpace (hd (dropWhile isWhiteSpace s))"
      by (rule hd_dropWhile)
    moreover from ne have "hd (dropWhile isWhiteSpace s) \<in> set (dropWhile isWhiteSpace s)"
      by simp
    ultimately show False using all_ws by blast
  qed
  then show "whitespace_only s"
    by (simp add: whitespace_only_def list_all_iff)
next
  assume "whitespace_only s"
  then have "dropWhile isWhiteSpace s = []"
    by (simp add: whitespace_only_def list_all_iff)
  then show "trim s = []"
    by (simp only: trim_def rev.simps dropWhile.simps)
qed

lemma js_join_Nil_iff:
  "list_all (\<lambda>k. k \<noteq> []) xs \<Longrightarrow> js_join sep xs = [] \<longleftrightarrow> xs = []"
  by (induction sep xs rule: js_join.induct) auto

lemma clean_keywords_Nil_iff:
  "clean_keywords kw = [] \<longleftrightarrow> list_all whitespace_only (js_split CHR '','' kw)"
proof -
  let ?segs = "js_split CHR '','' kw"
  let ?kept = "filter (\<lambda>k. length k > 0) (map trim ?segs)"
  have "list_all (\<lambda>k. k \<noteq> []) ?kept"
    by (simp add: list_all_iff)
  then have "clean_keywords kw = [] \<longleftrightarrow> ?kept = []"
    unfolding clean_keywords_def keyword_list_def by (rule js_join_Nil_iff)
  also have "\<dots> \<longleftrightarrow> (\<forall>seg\<in>set ?segs. trim seg = [])"
    by (auto simp: filter_empty_conv)
  also have "\<dots> \<longleftrightarrow> list_all whitespace_only ?segs"
    by (simp add: trim_Nil_iff list_all_iff)
  finally show ?thesis .
qed

section \<open>Properties of the Trends Provider\<close>

lemma clean_keywords_Nil [simp]: "clean_keywords [] = []"
  by (simp add: clean_keywords_def keyword_list_def trim_def)

lemma trends_handler_upstream:
  assumes "clean_keywords kw \<noteq> []"
  shows "trends_handler getJson key (Str kw) d =
           (let json = getJson \<lparr>engine = ''google_trends'', q = clean_keywords kw,
                                data_type = ''TIMESERIES'', api_key = key\<rparr>
            in if truthy_string (json_error json)
               then \<lparr>status = 500, body = ErrorJson (the (json_error json))\<rparr>
               else \<lparr>status = 200, body = Json json\<rparr>)"
proof -
  from assms have "kw \<noteq> []" by auto
  with assms show ?thesis
    by (simp add: trends_handler_def Let_def truthy_string_def split: option.splits)
qed

lemma keyword_list_example:
  "keyword_list ''coffee,milk,bread,pasta,steak'' =
     [''coffee'', ''milk'', ''bread'', ''pasta'', ''steak'']"
  by (simp add: keyword_list_def trim_def isWhiteSpace_def)

lemma clean_keywords_example:
  "clean_keywords ''coffee,milk,bread,pasta,steak'' = ''coffee,milk,bread,pasta,steak''"
  by (simp add: clean_keywords_def keyword_list_example)

lemma js_split_example:
  "js_split CHR '','' ''coffee,milk,bread,pasta,steak'' =
     [''coffee'', ''milk'', ''bread'', ''pasta'', ''steak'']"
  by simp

text \<open>
  C2. When the \<open>keywords\<close> parameter is missing, empty, or has only empty or white-space
  pieces between its commas, the handler answers 400 with a non-empty error string, whatever
  the upstream and the date; it sends no series.
\<close>

theorem keywords_missing_or_blank_400:
  assumes "keywords = Absent
           \<or> (\<exists>s. keywords = Str s \<and> list_all whitespace_only (js_split CHR '','' s))"
  shows "\<exists>e. e \<noteq> [] \<and>
           trends_handler getJson key keywords d = \<lparr>status = 400, body = ErrorJson e\<rparr>"
  using assms
  by (auto simp: trends_handler_def Let_def clean_keywords_Nil_iff)

theorem keywords_missing_or_blank_400_witness:
  "list_all whitespace_only (js_split CHR '','' '' , ,'')
   \<and> (\<exists>e. e \<noteq> [] \<and>
          trends_handler getJson_sample None (Str '' , ,'') Absent
            = \<lparr>status = 400, body = ErrorJson e\<rparr>)"
proof -
  have blank: "list_all whitespace_only (js_split CHR '','' '' , ,'')"
    by (simp add: whitespace_only_def isWhiteSpace_def)
  then show ?thesis
    using keywords_missing_or_blank_400 [of "Str '' , ,''" getJson_sample None Absent]
    by blast
qed

text \<open>
  C3, as the code has it. The handler generates no points: for a request with at least one
  keyword whose upstream reply reports no error, it answers 200 with that reply unchanged, so
  the response is a series of 52 points with values within 0 to 100 and one average per
  keyword exactly when the upstream's reply is.
\<close>

theorem series_is_the_upstream_reply:
  assumes "clean_keywords kw \<noteq> []"
    and "reply = getJson \<lparr>engine = ''google_trends'', q = clean_keywords kw,
                           data_type = ''TIMESERIES'', api_key = key\<rparr>"
    and "\<not> truthy_string (json_error reply)"
  shows "trends_handler getJson key (Str kw) d = \<lparr>status = 200, body = Json reply\<rparr>
         \<and> (returns_series 52 (keyword_list kw) (trends_handler getJson key (Str kw) d)
              \<longleftrightarrow> (case interest_over_time reply of
                      None \<Rightarrow> False
                    | Some s \<Rightarrow> series_ok 52 (keyword_list kw) s))"
proof -
  have r: "trends_handler getJson key (Str kw) d = \<lparr>status = 200, body = Json reply\<rparr>"
    using assms by (simp add: trends_handler_upstream Let_def)
  show ?thesis
    unfolding r by (simp add: returns_series_def)
qed

theorem series_is_the_upstream_reply_witness:
  "clean_keywords ''coffee,milk,bread,pasta,steak'' \<noteq> []
   \<and> \<not> truthy_string (json_error (getJson_weekly
          \<lparr>engine = ''google_trends'', q = clean_keywords ''coffee,milk,bread,pasta,steak'',
           data_type = ''TIMESERIES'', api_key = None\<rparr>))
   \<and> returns_series 52 [''coffee'', ''milk'', ''bread'', ''pasta'', ''steak'']
        (trends_handler getJson_weekly None (Str ''coffee,milk,bread,pasta,steak'') Absent)"
proof -
  let ?reply = "getJson_weekly
          \<lparr>engine = ''google_trends'', q = clean_keywords ''coffee,milk,bread,pasta,steak'',
           data_type = ''TIMESERIES'', api_key = None\<rparr>"
  have k: "clean_keywords ''coffee,milk,bread,pasta,steak'' \<noteq> []"
    by (simp add: clean_keywords_example)
  have e: "\<not> truthy_string (json_error ?reply)"
    by (simp add: getJson_weekly_def truthy_string_def Let_def)
  have s: "case interest_over_time ?reply of
             None \<Rightarrow> False
           | Some s \<Rightarrow> series_ok 52 (keyword_list ''coffee,milk,bread,pasta,steak'') s"
    by (simp add: getJson_weekly_def Let_def clean_keywords_example keyword_list_example
        series_ok_def point_ok_def list_all_iff comp_def)
  from series_is_the_upstream_reply
         [where kw = "''coffee,milk,bread,pasta,steak''" and getJson = getJson_weekly
            and key = None and reply = ?reply and d = Absent] k e s
  have "returns_series 52 (keyword_list ''coffee,milk,bread,pasta,steak'')
          (trends_handler getJson_weekly None (Str ''coffee,milk,bread,pasta,steak'') Absent)"
    by blast
  with k e show ?thesis
    by (simp add: keyword_list_example)
qed

text \<open>
  C3, as the claim states it, fails: asked for five keywords with the default date, an
  upstream that answers with the README's sample reply (one point, two keywords) makes the
  handler answer 200 with that reply, which is not a series of 52 points.
\<close>

theorem fifty_two_points_counterexample:
  "keyword_list ''coffee,milk,bread,pasta,steak''
     = [''coffee'', ''milk'', ''bread'', ''pasta'', ''steak'']
   \<and> trends_handler getJson_sample None (Str ''coffee,milk,bread,pasta,steak'') Absent
       = \<lparr>status = 200, body = Json sample_reply\<rparr>
   \<and> map_option (\<lambda>s. length (timeline_data s)) (interest_over_time sample_reply) = Some 1
   \<and> \<not> returns_series 52 [''coffee'', ''milk'', ''bread'', ''pasta'', ''steak'']
         (trends_handler getJson_sample None (Str ''coffee,milk,bread,pasta,steak'') Absent)"
proof -
  have r: "trends_handler getJson_sample None (Str ''coffee,milk,bread,pasta,steak'') Absent
             = \<lparr>status = 200, body = Json sample_reply\<rparr>"
    by (simp add: trends_handler_upstream clean_keywords_example Let_def getJson_sample_def
        sample_reply_def truthy_string_def)
  show ?thesis
    unfolding r
    by (simp add: keyword_list_example returns_series_def series_ok_def sample_reply_def)
qed

text \<open>
  C5. An omitted \<open>date\<close> defaults to \<open>today 12-m\<close> and a supplied token is taken as it is,
  unvalidated; but the handler never uses it: the response to a request with a date token is
  the response to the same request without one, so the token reaches neither the upstream
  nor the response's metadata.
\<close>

theorem date_token_is_dropped:
  "date_or_default Absent = Str ''today 12-m''
   \<and> date_or_default (Str token) = Str token
   \<and> trends_handler getJson key keywords (Str token)
       = trends_handler getJson key keywords Absent"
  by (simp add: date_or_default_def trends_handler_def Let_def)

theorem date_token_is_dropped_witness:
  "trends_handler getJson_sample None (Str ''machine learning,deep learning'') (Str ''today 3-m'')
     = trends_handler getJson_sample None (Str ''machine learning,deep learning'') Absent
   \<and> trends_handler getJson_sample None (Str ''machine learning,deep learning'') (Str ''today 3-m'')
     = \<lparr>status = 200, body = Json sample_reply\<rparr>
   \<and> map_option sp_date (search_parameters sample_reply) = Some ''today 12-m''"
proof -
  have k: "clean_keywords ''machine learning,deep learning'' \<noteq> []"
    by (simp add: clean_keywords_def keyword_list_def trim_def isWhiteSpace_def)
  have r: "trends_handler getJson_sample None (Str ''machine learning,deep learning'') Absent
             = \<lparr>status = 200, body = Json sample_reply\<rparr>"
    using k
    by (simp add: trends_handler_upstream Let_def getJson_sample_def sample_reply_def
        truthy_string_def)
  from date_token_is_dropped [of "''today 3-m''" getJson_sample None
      "Str ''machine learning,deep learning''"] r
  show ?thesis
    by (simp add: sample_reply_def)
qed

text \<open>
  Where the client always calls back, the handler with a rejecting call is the handler
  above.
\<close>

lemma trends_route_calls_back:
  "trends_route (\<lambda>params. Calls_back (getJson params)) key keywords d
     = Some (trends_handler getJson key keywords d)"
  by (simp add: trends_route_def trends_handler_def Let_def
      split: query_value.splits option.splits)

text \<open>
  A failure that comes back through the callback, as the reply's non-empty \<open>error\<close> field,
  is answered with 500 and that very message.
\<close>

lemma upstream_error_reply_500:
  assumes "clean_keywords kw \<noteq> []"
    and "getJson \<lparr>engine = ''google_trends'', q = clean_keywords kw,
                   data_type = ''TIMESERIES'', api_key = key\<rparr> = Calls_back json"
    and "json_error json = Some msg"
    and "msg \<noteq> []"
  shows "trends_route getJson key (Str kw) d = Some \<lparr>status = 500, body = ErrorJson msg\<rparr>"
proof -
  from assms(1) have "kw \<noteq> []" by auto
  with assms show ?thesis
    by (simp add: trends_route_def Let_def)
qed

lemma upstream_error_reply_500_example:
  "trends_route (\<lambda>params. Calls_back (getJson_failing params)) None (Str ''coffee,milk'') Absent
     = Some \<lparr>status = 500, body = ErrorJson ''Invalid API key''\<rparr>"
proof -
  have k: "clean_keywords ''coffee,milk'' \<noteq> []"
    by (simp add: clean_keywords_def keyword_list_def trim_def isWhiteSpace_def)
  show ?thesis
    by (rule upstream_error_reply_500 [OF k refl _ _, where msg = "''Invalid API key''"])
       (simp_all add: getJson_failing_def)
qed

text \<open>
  C6. A failure of the upstream that makes the promise of \<open>getJson\<close> reject is not answered
  at all: for a request with at least one keyword the handler sends no response, neither
  the 500 with the upstream's message nor anything in its place.
\<close>

theorem upstream_rejection_unanswered:
  assumes "clean_keywords kw \<noteq> []"
    and "getJson \<lparr>engine = ''google_trends'', q = clean_keywords kw,
                   data_type = ''TIMESERIES'', api_key = key\<rparr> = Rejects msg"
  shows "trends_route getJson key (Str kw) d = None"
proof -
  from assms(1) have "kw \<noteq> []" by auto
  with assms show ?thesis
    by (simp add: trends_route_def Let_def)
qed

theorem upstream_rejection_unanswered_witness:
  "clean_keywords ''coffee,milk'' \<noteq> []
   \<and> getJson_unreachable \<lparr>engine = ''google_trends'', q = clean_keywords ''coffee,milk'',
                           data_type = ''TIMESERIES'', api_key = None\<rparr>
       = Rejects ''getaddrinfo ENOTFOUND serpapi.com''
   \<and> trends_route getJson_unreachable None (Str ''coffee,milk'') Absent = None"
proof -
  have k: "clean_keywords ''coffee,milk'' \<noteq> []"
    by (simp add: clean_keywords_def keyword_list_def trim_def isWhiteSpace_def)
  have r: "getJson_unreachable \<lparr>engine = ''google_trends'', q = clean_keywords ''coffee,milk'',
                                 data_type = ''TIMESERIES'', api_key = None\<rparr>
             = Rejects ''getaddrinfo ENOTFOUND serpapi.com''"
    by (simp add: getJson_unreachable_def)
  note unanswered = upstream_rejection_unanswered
         [where kw = "''coffee,milk''" and getJson = getJson_unreachable and key = None
            and msg = "''getaddrinfo ENOTFOUND serpapi.com''" and d = Absent, OF k r]
  from k r unanswered show ?thesis
    by (intro conjI)
qed

section \<open>Properties of the Presentation Client\<close>

lemma useEffect_load_storage: "fst (useEffect_load JSON_parse (st, p)) = st"
  by (simp add: useEffect_load_def Let_def split: option.splits)

lemma useEffect_load_hasProcessed: "hasProcessed (snd (useEffect_load JSON_parse (st, p)))"
  by (simp add: useEffect_load_def Let_def split: option.splits)

lemma useEffect_load_processed:
  "hasProcessed p \<Longrightarrow> useEffect_load JSON_parse (st, p) = (st, p)"
  by (simp add: useEffect_load_def)

lemma useEffect_clear_processed:
  "hasProcessed p \<Longrightarrow> useEffect_clear truthy rendered (st, p) = (st, p)"
  by (simp add: useEffect_clear_def)

lemma run_effects_eq_load:
  "run_effects JSON_parse truthy rendered (st, p) = useEffect_load JSON_parse (st, p)"
proof -
  obtain st1 p1 where l: "useEffect_load JSON_parse (st, p) = (st1, p1)"
    by (cases "useEffect_load JSON_parse (st, p)")
  have "hasProcessed p1"
    using useEffect_load_hasProcessed [of JSON_parse st p] l by simp
  then show ?thesis
    by (simp add: run_effects_def l useEffect_clear_processed)
qed

lemma ResultPage_eq_load:
  "ResultPage JSON_parse truthy st = useEffect_load JSON_parse (st, initial_page)"
proof -
  obtain st1 p1 where l: "useEffect_load JSON_parse (st, initial_page) = (st1, p1)"
    by (cases "useEffect_load JSON_parse (st, initial_page)")
  have "hasProcessed p1"
    using useEffect_load_hasProcessed [of JSON_parse st initial_page] l by simp
  then show ?thesis
    by (simp add: ResultPage_def Let_def run_effects_eq_load l useEffect_clear_processed)
qed

lemma ResultPage_parsed:
  assumes "getItem st ''validationResult'' = Some resultData" and "resultData \<noteq> []"
    and "JSON_parse resultData = Some v"
  shows "ResultPage JSON_parse truthy st =
           (st, \<lparr>result = Some v, loading = False, error = None, hasProcessed = True\<rparr>)"
  using assms
  by (simp add: ResultPage_eq_load useEffect_load_def initial_page_def)

lemma sample_text_stored:
  "getItem (setItem Map.empty ''validationResult'' t) ''validationResult'' = Some t"
  by (simp add: getItem_def setItem_def)

lemma sample_texts_nonempty: "sample_text \<noteq> []" "maybe_text \<noteq> []" "maybe_text \<noteq> sample_text"
  by (simp_all add: sample_text_def maybe_text_def)

text \<open>
  C1. The results view never clears the hand-off storage: a load leaves the storage as it
  found it, because the first effect sets \<open>hasProcessed\<close> on every path and the second
  clears only while it is unset. A second load therefore ends in the state of the first.
\<close>

theorem results_view_never_clears_storage:
  "fst (ResultPage JSON_parse truthy st) = st
   \<and> ResultPage JSON_parse truthy (fst (ResultPage JSON_parse truthy st))
       = ResultPage JSON_parse truthy st"
  by (simp add: ResultPage_eq_load useEffect_load_storage)

theorem results_view_never_clears_storage_witness:
  "getItem (fst (ResultPage parse_sample truthy_object
                   (setItem Map.empty ''validationResult'' sample_text)))
      ''validationResult'' = Some sample_text
   \<and> render truthy_object
        (snd (ResultPage parse_sample truthy_object
                (setItem Map.empty ''validationResult'' sample_text)))
       = ResultView sample_result
   \<and> render truthy_object
        (snd (ResultPage parse_sample truthy_object
                (fst (ResultPage parse_sample truthy_object
                        (setItem Map.empty ''validationResult'' sample_text)))))
       = ResultView sample_result"
proof -
  let ?st = "setItem Map.empty ''validationResult'' sample_text"
  have p: "ResultPage parse_sample truthy_object ?st =
             (?st, \<lparr>result = Some sample_result, loading = False, error = None,
                    hasProcessed = True\<rparr>)"
    by (rule ResultPage_parsed [OF sample_text_stored sample_texts_nonempty(1)])
       (simp add: parse_sample_def)
  have v: "render truthy_object (snd (ResultPage parse_sample truthy_object ?st))
             = ResultView sample_result"
    by (simp add: p render_def truthy_string_def truthy_result_def truthy_object_def)
  from results_view_never_clears_storage [of parse_sample truthy_object ?st] v
  show ?thesis
    by (simp add: sample_text_stored)
qed

text \<open>
  C7. For an idea that is empty or white space only, \<open>handleSubmit\<close> returns at once: it
  sends no request, pushes no route and leaves the state and the storage as they were; the
  submit button is disabled as well.
\<close>

theorem blank_idea_sends_no_request:
  assumes "whitespace_only (idea h)"
  shows "handleSubmit fetch JSON_stringify st h
           = \<lparr>page = h, store = st, sent = [], pushed = None\<rparr>
         \<and> submit_disabled h"
  using assms
  by (simp add: handleSubmit_def submit_disabled_def trim_Nil_iff)

theorem blank_idea_sends_no_request_witness:
  "whitespace_only (idea \<lparr>idea = ''   '', isLoading = False, home_error = None\<rparr>)
   \<and> sent (handleSubmit fetch_sample stringify_sample Map.empty
              \<lparr>idea = ''   '', isLoading = False, home_error = None\<rparr>) = []
   \<and> submit_disabled \<lparr>idea = ''   '', isLoading = False, home_error = None\<rparr>"
proof -
  have b: "whitespace_only (idea \<lparr>idea = ''   '', isLoading = False, home_error = None\<rparr>)"
    by (simp add: whitespace_only_def isWhiteSpace_def)
  from blank_idea_sends_no_request [OF b, of fetch_sample stringify_sample Map.empty] b
  show ?thesis
    by simp
qed

lemma nonblank_idea_sends_request:
  assumes "\<not> whitespace_only (idea h)"
  shows "sent (handleSubmit fetch JSON_stringify st h)
           = [\<lparr>url = ''http://localhost:8001/validate'', http_method = ''POST'',
               body_query = idea h\<rparr>]"
  using assms
  by (simp add: handleSubmit_def trim_Nil_iff Let_def split: fetched.splits option.splits)

lemma submit_then_view_example:
  "pushed (handleSubmit fetch_sample stringify_sample Map.empty
             \<lparr>idea = ''coffee for offices'', isLoading = False, home_error = None\<rparr>)
     = Some ''/result''
   \<and> render truthy_object
        (snd (ResultPage parse_sample truthy_object
                (store (handleSubmit fetch_sample stringify_sample Map.empty
                          \<lparr>idea = ''coffee for offices'', isLoading = False,
                           home_error = None\<rparr>))))
       = ResultView sample_result"
proof -
  have t: "trim ''coffee for offices'' \<noteq> []"
    by (simp add: trim_def isWhiteSpace_def)
  have m: "sample_result \<noteq> maybe_result"
    by (simp add: maybe_result_def sample_result_def)
  have h: "handleSubmit fetch_sample stringify_sample Map.empty
             \<lparr>idea = ''coffee for offices'', isLoading = False, home_error = None\<rparr>
           = \<lparr>page = \<lparr>idea = ''coffee for offices'', isLoading = True, home_error = None\<rparr>,
              store = setItem Map.empty ''validationResult'' sample_text,
              sent = [\<lparr>url = ''http://localhost:8001/validate'', http_method = ''POST'',
                       body_query = ''coffee for offices''\<rparr>],
              pushed = Some ''/result''\<rparr>"
    using t m by (simp add: handleSubmit_def fetch_sample_def stringify_sample_def Let_def)
  have p: "ResultPage parse_sample truthy_object
             (setItem Map.empty ''validationResult'' sample_text) =
             (setItem Map.empty ''validationResult'' sample_text,
              \<lparr>result = Some sample_result, loading = False, error = None,
               hasProcessed = True\<rparr>)"
    by (rule ResultPage_parsed [OF sample_text_stored sample_texts_nonempty(1)])
       (simp add: parse_sample_def)
  show ?thesis
    unfolding h
    by (simp add: p render_def truthy_string_def truthy_result_def truthy_object_def)
qed

text \<open>
  C8. The hand-off is consumed once: after a run of the first effect the \<open>hasProcessed\<close>
  flag is set, and a further run of it, or of both effects, whatever the storage then holds
  and whatever the render showed, returns the storage and the page state as they were.
\<close>

theorem handoff_consumed_once:
  "hasProcessed (snd (useEffect_load JSON_parse (st, p)))
   \<and> useEffect_load JSON_parse (st', snd (useEffect_load JSON_parse (st, p)))
       = (st', snd (useEffect_load JSON_parse (st, p)))
   \<and> run_effects JSON_parse truthy rendered'
        (st', snd (run_effects JSON_parse truthy rendered (st, p)))
       = (st', snd (run_effects JSON_parse truthy rendered (st, p)))"
  by (simp add: run_effects_eq_load useEffect_load_hasProcessed useEffect_load_processed)

theorem handoff_consumed_once_witness:
  "snd (useEffect_load parse_sample
          (setItem Map.empty ''validationResult'' sample_text, initial_page))
     = \<lparr>result = Some sample_result, loading = False, error = None, hasProcessed = True\<rparr>
   \<and> snd (useEffect_load parse_sample
            (setItem Map.empty ''validationResult'' maybe_text,
             snd (useEffect_load parse_sample
                    (setItem Map.empty ''validationResult'' sample_text, initial_page))))
     = \<lparr>result = Some sample_result, loading = False, error = None, hasProcessed = True\<rparr>"
proof -
  let ?st = "setItem Map.empty ''validationResult'' sample_text"
  let ?st' = "setItem Map.empty ''validationResult'' maybe_text"
  have first: "snd (useEffect_load parse_sample (?st, initial_page))
      = \<lparr>result = Some sample_result, loading = False, error = None, hasProcessed = True\<rparr>"
    by (simp add: useEffect_load_def initial_page_def sample_text_stored
        sample_texts_nonempty parse_sample_def)
  from handoff_consumed_once [of parse_sample ?st initial_page ?st'] first
  show ?thesis
    by simp
qed

text \<open>
  The recommendation badge: its text is the recommendation as the view received it;
  \<open>BUILD\<close>, \<open>VALIDATE\<close> and \<open>PIVOT\<close> have colour classes of their own, different from one
  another, and every other value has the slate classes, which none of the three has.
\<close>

lemma recommendation_badge_label: "label (recommendation_badge r) = recommendation r"
  by (simp add: recommendation_badge_def)

lemma getRecommendationColor_cases:
  "getRecommendationColor ''BUILD''
     = ''text-green-600 bg-green-100 dark:bg-green-900/30 border-green-200 dark:border-green-700''"
  "getRecommendationColor ''VALIDATE''
     = ''text-yellow-600 bg-yellow-100 dark:bg-yellow-900/30 border-yellow-200 dark:border-yellow-700''"
  "getRecommendationColor ''PIVOT''
     = ''text-red-600 bg-red-100 dark:bg-red-900/30 border-red-200 dark:border-red-700''"
  "r \<notin> {''BUILD'', ''VALIDATE'', ''PIVOT''} \<longleftrightarrow>
     getRecommendationColor r
       = ''text-slate-600 bg-slate-100 dark:bg-slate-900/30 border-slate-200 dark:border-slate-700''"
  by (simp_all add: getRecommendationColor_def)

text \<open>
  C10, as the code has it. For every non-empty string under the hand-off key that
  \<open>JSON.parse\<close> rejects, a load of the results view ends, with the storage untouched, in the
  error state \<open>Invalid result data format\<close> with the processed flag set and the loading flag
  cleared, and the view shows that error.
\<close>

theorem malformed_handoff_error_state:
  assumes "getItem st ''validationResult'' = Some resultData"
    and "resultData \<noteq> []"
    and "JSON_parse resultData = None"
  shows "ResultPage JSON_parse truthy st
           = (st, \<lparr>result = None, loading = False,
                   error = Some ''Invalid result data format. Please start a new analysis.'',
                   hasProcessed = True\<rparr>)
         \<and> render truthy (snd (ResultPage JSON_parse truthy st))
             = ErrorView ''Invalid result data format. Please start a new analysis.''"
  using assms
  by (simp add: ResultPage_eq_load useEffect_load_def initial_page_def render_def
      truthy_string_def)

theorem malformed_handoff_error_state_witness:
  "getItem (setItem Map.empty ''validationResult'' ''{oops'') ''validationResult''
     = Some ''{oops''
   \<and> parse_sample ''{oops'' = None
   \<and> render truthy_object
        (snd (ResultPage parse_sample truthy_object
                (setItem Map.empty ''validationResult'' ''{oops'')))
       = ErrorView ''Invalid result data format. Please start a new analysis.''"
proof -
  have n: "parse_sample ''{oops'' = None"
    by (simp add: parse_sample_def sample_text_def maybe_text_def)
  have ne: "''{oops'' \<noteq> []"
    by simp
  note shown = malformed_handoff_error_state
         [where JSON_parse = parse_sample and resultData = "''{oops''"
            and truthy = truthy_object, OF sample_text_stored ne n, THEN conjunct2]
  from sample_text_stored n shown show ?thesis
    by (intro conjI)
qed

text \<open>
  C10, as the claim states it, fails at the empty string: it is not JSON, yet it is falsy
  when read from the storage, so the load ends in the \<open>No result data found\<close> state.
\<close>

theorem empty_handoff_counterexample:
  "parse_sample [] = None
   \<and> snd (ResultPage parse_sample truthy_object (setItem Map.empty ''validationResult'' []))
       = \<lparr>result = None, loading = False,
          error = Some ''No result data found. Please start a new analysis.'',
          hasProcessed = True\<rparr>
   \<and> render truthy_object
        (snd (ResultPage parse_sample truthy_object
                (setItem Map.empty ''validationResult'' [])))
       = ErrorView ''No result data found. Please start a new analysis.''"
  by (simp add: parse_sample_def sample_texts_nonempty [symmetric] ResultPage_eq_load
      useEffect_load_def initial_page_def sample_text_stored render_def truthy_string_def)

section \<open>Properties of the batch validation\<close>

text \<open>
  C4. A batch of N ideas returns N results, the result of each idea being that of its own
  validation whether or not others fail; the count of the successes and the count of the
  failures add up to the total, which is N.
\<close>

theorem batch_one_result_per_input:
  "results (validate_batch validate queries) = map (validate_item validate) queries
   \<and> length (results (validate_batch validate queries)) = length queries
   \<and> total_queries (validate_batch validate queries) = length queries
   \<and> successful_queries (validate_batch validate queries)
       + failed_queries (validate_batch validate queries)
       = total_queries (validate_batch validate queries)"
proof -
  let ?rs = "map (validate_item validate) queries"
  have counts: "length (filter vr_success ?rs) + length (filter (\<lambda>r. \<not> vr_success r) ?rs)
                  = length ?rs"
    by (rule sum_length_filter_compl)
  have fields:
    "results (validate_batch validate queries) = ?rs"
    "total_queries (validate_batch validate queries) = length queries"
    "successful_queries (validate_batch validate queries) = length (filter vr_success ?rs)"
    "failed_queries (validate_batch validate queries)
       = length (filter (\<lambda>r. \<not> vr_success r) ?rs)"
    by (simp_all only: validate_batch_def Let_def BatchValidationResponse.simps)
  show ?thesis
    unfolding fields using counts by simp
qed

theorem batch_one_result_per_input_witness:
  "length (results (validate_batch validate_sample [''crm'', [], ''coffee''])) = 3
   \<and> map vr_success (results (validate_batch validate_sample [''crm'', [], ''coffee'']))
       = [True, False, True]
   \<and> successful_queries (validate_batch validate_sample [''crm'', [], ''coffee'']) = 2
   \<and> failed_queries (validate_batch validate_sample [''crm'', [], ''coffee'']) = 1
   \<and> total_queries (validate_batch validate_sample [''crm'', [], ''coffee'']) = 3"
  using batch_one_result_per_input [of validate_sample "[''crm'', [], ''coffee'']"]
  by (simp add: validate_batch_def validate_item_def validate_sample_def failed_result_def)


end
